theory Spec2Isabelle
  imports Main
begin

section \<open>JavaScript values and the coercions the source relies on\<close>

text \<open>
  The node class of the treeifier core library declares \<open>value\<close> and \<open>processResult\<close> as
  \<open>any\<close>, and the strategies of \<open>treeifier-utils.ts\<close> apply \<open>&&\<close>, \<open>+\<close>, \<open><\<close>, \<open>!=\<close>, \<open>===\<close>,
  \<open>??\<close> and property access to them. The values are modelled by a datatype and each operator
  by a function that follows ECMAScript on it. Numbers are integers (indices, lengths and
  enum members are); fractional numbers, \<open>NaN\<close> as a stored value, functions and symbols are
  outside the model.
\<close>

datatype jsvalue =
    JUndefined
  | JNull
  | JBoolean bool
  | JNumber int
  | JString string
  | JArray "jsvalue list"
  | JObject "(string \<times> jsvalue) list"

datatype error = TypeError

fun digits_of_nat :: "nat \<Rightarrow> string" where
  "digits_of_nat n = (if n < 10 then [''0123456789'' ! n]
     else digits_of_nat (n div 10) @ [''0123456789'' ! (n mod 10)])"

text \<open>
  \<open>ToString\<close> is the string conversion of \<open>'' + v\<close> and of template literals;
  \<open>join_elements sep xs\<close> is \<open>xs.join(sep)\<close>, where \<open>undefined\<close> and \<open>null\<close> elements
  give the empty string.
\<close>

fun ToString :: "jsvalue \<Rightarrow> string"
  and join_elements :: "string \<Rightarrow> jsvalue list \<Rightarrow> string" where
  "ToString JUndefined = ''undefined''"
| "ToString JNull = ''null''"
| "ToString (JBoolean b) = (if b then ''true'' else ''false'')"
| "ToString (JNumber i) =
     (if i < 0 then ''-'' @ digits_of_nat (nat (- i)) else digits_of_nat (nat i))"
| "ToString (JString s) = s"
| "ToString (JArray xs) = join_elements '','' xs"
| "ToString (JObject ps) = ''[object Object]''"
| "join_elements sep [] = []"
| "join_elements sep [x] =
     (case x of JUndefined \<Rightarrow> [] | JNull \<Rightarrow> [] | _ \<Rightarrow> ToString x)"
| "join_elements sep (x # y # xs) =
     (case x of JUndefined \<Rightarrow> [] | JNull \<Rightarrow> [] | _ \<Rightarrow> ToString x)
       @ sep @ join_elements sep (y # xs)"

text \<open>Truthiness, as tested by \<open>v && ...\<close> and \<open>v ? a : b\<close>.\<close>

fun ToBoolean :: "jsvalue \<Rightarrow> bool" where
  "ToBoolean JUndefined = False"
| "ToBoolean JNull = False"
| "ToBoolean (JBoolean b) = b"
| "ToBoolean (JNumber i) = (i \<noteq> 0)"
| "ToBoolean (JString s) = (s \<noteq> [])"
| "ToBoolean (JArray xs) = True"
| "ToBoolean (JObject ps) = True"

text \<open>
  The numeric value of a string: white space is trimmed, the empty string is 0, an
  optionally signed run of decimal digits is that integer, and anything else is \<open>NaN\<close>
  (\<open>None\<close>). Fractions, exponents, radix prefixes and \<open>Infinity\<close> are not integers and are
  outside the model.
\<close>

definition is_white_space :: "char \<Rightarrow> bool" where
  "is_white_space c \<longleftrightarrow>
     c \<in> set [CHR '' '', CHR 0x09, CHR 0x0A, CHR 0x0B, CHR 0x0C, CHR 0x0D]"

definition trim :: "string \<Rightarrow> string" where
  "trim s = rev (dropWhile is_white_space (rev (dropWhile is_white_space s)))"

definition digit_value :: "char \<Rightarrow> nat option" where
  "digit_value c = map_of (zip ''0123456789'' [0, 1, 2, 3, 4, 5, 6, 7, 8, 9]) c"

fun decimal_digits :: "nat \<Rightarrow> string \<Rightarrow> nat option" where
  "decimal_digits acc [] = Some acc"
| "decimal_digits acc (c # cs) =
     (case digit_value c of None \<Rightarrow> None | Some d \<Rightarrow> decimal_digits (10 * acc + d) cs)"

definition unsigned_integer :: "string \<Rightarrow> nat option" where
  "unsigned_integer s = (if s = [] then None else decimal_digits 0 s)"

definition StringToNumber :: "string \<Rightarrow> int option" where
  "StringToNumber s =
     (let t = trim s in
      if t = [] then Some 0
      else if hd t = CHR ''-'' then map_option (\<lambda>n. - int n) (unsigned_integer (tl t))
      else if hd t = CHR ''+'' then map_option int (unsigned_integer (tl t))
      else map_option int (unsigned_integer t))"

text \<open>
  \<open>ToNumber\<close>: an array or an object is first converted to its string (an object without
  a \<open>valueOf\<close> or \<open>toString\<close> of its own gives \<open>[object Object]\<close>, hence \<open>NaN\<close>).
\<close>

fun ToNumber :: "jsvalue \<Rightarrow> int option" where
  "ToNumber JUndefined = None"
| "ToNumber JNull = Some 0"
| "ToNumber (JBoolean b) = Some (if b then 1 else 0)"
| "ToNumber (JNumber i) = Some i"
| "ToNumber (JString s) = StringToNumber s"
| "ToNumber (JArray xs) = StringToNumber (ToString (JArray xs))"
| "ToNumber (JObject ps) = StringToNumber (ToString (JObject ps))"

text \<open>\<open>v < k\<close> for a number \<open>k\<close>: both sides are compared as numbers, \<open>NaN\<close> is never less.\<close>

definition js_less_than :: "jsvalue \<Rightarrow> int \<Rightarrow> bool" where
  "js_less_than v k = (case ToNumber v of None \<Rightarrow> False | Some i \<Rightarrow> i < k)"

text \<open>
  \<open>v == true\<close>: the boolean becomes the number 1; \<open>undefined\<close> and \<open>null\<close> equal only each
  other, every other value is compared through its number.
\<close>

definition loose_equals_true :: "jsvalue \<Rightarrow> bool" where
  "loose_equals_true v =
     (case v of JUndefined \<Rightarrow> False | JNull \<Rightarrow> False | _ \<Rightarrow> ToNumber v = Some 1)"

text \<open>\<open>a === b\<close> with a primitive on the left; an array or object is a reference of its own.\<close>

definition strict_equals :: "jsvalue \<Rightarrow> jsvalue \<Rightarrow> bool" where
  "strict_equals a b = (case a of JArray xs \<Rightarrow> False | JObject ps \<Rightarrow> False | _ \<Rightarrow> a = b)"

text \<open>\<open>a ?? b\<close>.\<close>

definition nullish_coalesce :: "jsvalue \<Rightarrow> jsvalue \<Rightarrow> jsvalue" where
  "nullish_coalesce a b = (if a = JUndefined \<or> a = JNull then b else a)"

text \<open>
  \<open>v.path\<close> and \<open>v.length\<close>: reading a property of \<open>undefined\<close> or \<open>null\<close> throws a
  \<open>TypeError\<close>; an object is looked up by name; a string and an array have a \<open>length\<close>
  and no \<open>path\<close>.
\<close>

fun get_path :: "jsvalue \<Rightarrow> error + jsvalue" where
  "get_path JUndefined = Inl TypeError"
| "get_path JNull = Inl TypeError"
| "get_path (JObject ps) = Inr (case map_of ps ''path'' of None \<Rightarrow> JUndefined | Some w \<Rightarrow> w)"
| "get_path v = Inr JUndefined"

fun get_length :: "jsvalue \<Rightarrow> error + jsvalue" where
  "get_length JUndefined = Inl TypeError"
| "get_length JNull = Inl TypeError"
| "get_length (JString s) = Inr (JNumber (int (length s)))"
| "get_length (JArray xs) = Inr (JNumber (int (length xs)))"
| "get_length (JObject ps) = Inr (case map_of ps ''length'' of None \<Rightarrow> JUndefined | Some w \<Rightarrow> w)"
| "get_length v = Inr JUndefined"


section \<open>The node model of the core library, as the strategies read it\<close>

text \<open>
  \<open>TreeifierNode\<close> is a class of the treeifier core library. The datatype has the fields
  that \<open>treeifier-utils.ts\<close> reads, with their declared types; \<open>nodeType\<close> is a member of
  the numeric enum \<open>TreeifierNodeTypes\<close>, \<open>nvalue\<close> is the field \<open>value\<close>, and \<open>toString\<close>
  holds what the method \<open>node.toString()\<close> returns. References to other nodes (\<open>parent\<close>,
  \<open>circularRefNode\<close>, \<open>ancestors\<close>, \<open>children\<close>) are nodes again.
\<close>

datatype node = Node
  (key: string)
  (nvalue: jsvalue)
  (nodeType: int)
  (parent: "node option")
  (ancestors: "node list")
  (isCircular: bool)
  (circularRefNode: "node option")
  (isLeaf: bool)
  (isBranch: bool)
  (prefix: string)
  (joint: string)
  (children: "node list")
  (processResult: jsvalue)
  (path: string)
  (toString: string)

text \<open>
  The enum \<open>TreeifierNodeTypes\<close> is declared in the core library. A numeric TypeScript enum
  is an object that maps each member name to its number and each number back to its name;
  it is a parameter \<open>E\<close> of the strategies. \<open>enum_member E name\<close> is
  \<open>TreeifierNodeTypes.name\<close>.
\<close>

type_synonym enum_object = "(string \<times> jsvalue) list"

definition enum_member :: "enum_object \<Rightarrow> string \<Rightarrow> jsvalue" where
  "enum_member E name = (case map_of E name of None \<Rightarrow> JUndefined | Some v \<Rightarrow> v)"

text \<open>\<open>nodeTypeToString\<close>: the lookup \<open>TreeifierNodeTypes[nodetype]\<close>.\<close>

definition nodeTypeToString :: "enum_object \<Rightarrow> jsvalue \<Rightarrow> jsvalue" where
  "nodeTypeToString E nodetype = enum_member E (ToString nodetype)"


section \<open>The style registry\<close>

text \<open>
  The static members of \<open>TreeifierUtils\<close>: four read-only defaults and the four style
  functions in use. A style function is a chalk instance, applied to one argument that it
  converts to a string; what it returns is left open.
\<close>

record utils_state =
  defaultStructureColor :: "string \<Rightarrow> string"
  defaultKeyColor :: "string \<Rightarrow> string"
  defaultValueColor :: "string \<Rightarrow> string"
  defaultCircularColor :: "string \<Rightarrow> string"
  StructureColor :: "string \<Rightarrow> string"
  KeyColor :: "string \<Rightarrow> string"
  ValueColor :: "string \<Rightarrow> string"
  CircularColor :: "string \<Rightarrow> string"

definition resetAllColors :: "utils_state \<Rightarrow> utils_state" where
  "resetAllColors s =
     (let s = s\<lparr>StructureColor := defaultStructureColor s\<rparr>;
          s = s\<lparr>KeyColor := defaultKeyColor s\<rparr>;
          s = s\<lparr>ValueColor := defaultValueColor s\<rparr>;
          s = s\<lparr>CircularColor := defaultCircularColor s\<rparr>
      in s)"


section \<open>The render strategies\<close>

text \<open>
  Every strategy takes the node and the state of the registry and returns its string
  together with the state it leaves. The body of the \<open>forEach\<close> callback,
  \<open>child.processResult && (result = result + '\n' + child.processResult)\<close>, is
  \<open>append_processResult\<close>; the loop is a left fold over the children.
\<close>

definition append_processResult :: "string \<Rightarrow> node \<Rightarrow> string" where
  "append_processResult result child =
     (if ToBoolean (processResult child)
      then result @ ''\<newline>'' @ ToString (processResult child)
      else result)"

definition defaultColoredTypesProcessor ::
  "enum_object \<Rightarrow> node \<Rightarrow> utils_state \<Rightarrow> string \<times> utils_state" where
  "defaultColoredTypesProcessor E node s =
     (let result = StructureColor s (prefix node @ joint node) @
                   KeyColor s (key node) @
                   StructureColor s '' : '' @
                   ValueColor s (ToString (nodeTypeToString E (JNumber (nodeType node))));
          result = (if isBranch node
                    then foldl append_processResult result (children node)
                    else result)
      in (result, s))"

text \<open>
  The \<open>const\<close> bindings of a strategy are definitions of their own, named after the
  strategy and the binding. In \<open>' -> ' + node.circularRefNode?.key ?? '?'\<close> the operator
  \<open>+\<close> binds tighter than \<open>??\<close>: the left operand of \<open>??\<close> is the concatenation.
\<close>

definition Values_circular :: "node \<Rightarrow> string" where
  "Values_circular node =
     (if isCircular node
      then ToString (nullish_coalesce
             (JString ('' -> '' @ ToString (case circularRefNode node of
                                              None \<Rightarrow> JUndefined
                                            | Some r \<Rightarrow> JString (key r))))
             (JString ''?''))
      else [])"

definition Values_nodeValue :: "node \<Rightarrow> string" where
  "Values_nodeValue node = (if isLeaf node then toString node else [])"

definition defaultColoredValuesProcessor ::
  "node \<Rightarrow> utils_state \<Rightarrow> string \<times> utils_state" where
  "defaultColoredValuesProcessor node s =
     (let circular = Values_circular node;
          nodeValue = Values_nodeValue node;
          result = StructureColor s (prefix node @ joint node) @
                   KeyColor s (key node) @
                   StructureColor s (if nodeValue \<noteq> [] then '' : '' else []) @
                   ValueColor s nodeValue @
                   CircularColor s circular;
          result = (if isBranch node
                    then foldl append_processResult result (children node)
                    else result)
      in (result, s))"

definition HTML_circularKey :: "node \<Rightarrow> jsvalue" where
  "HTML_circularKey node =
     nullish_coalesce
       (case circularRefNode node of None \<Rightarrow> JUndefined | Some r \<Rightarrow> JString (key r))
       (JString ''?'')"

definition HTML_circularPath :: "node \<Rightarrow> jsvalue" where
  "HTML_circularPath node =
     nullish_coalesce
       (case circularRefNode node of None \<Rightarrow> JUndefined | Some r \<Rightarrow> JString (path r))
       (JString [])"

definition HTML_circularLink :: "node \<Rightarrow> string" where
  \<open>HTML_circularLink node =
     (if isCircular node
      then ''<a href="#list@'' @ ToString (HTML_circularPath node) @ ''">'' @
           ToString (HTML_circularKey node) @ ''</a>''
      else ToString (HTML_circularKey node))\<close>

definition HTML_circularReference :: "node \<Rightarrow> string" where
  \<open>HTML_circularReference node =
     (if isCircular node
      then ''<span class="circularlink">'' @ HTML_circularLink node @ ''</span>''
      else [])\<close>

definition HTML_nodeTypeClass :: "enum_object \<Rightarrow> node \<Rightarrow> string" where
  "HTML_nodeTypeClass E node =
     ''nt_'' @ ToString (nodeTypeToString E (JNumber (nodeType node)))"

definition HTML_nodeKey :: "enum_object \<Rightarrow> node \<Rightarrow> string" where
  \<open>HTML_nodeKey E node =
     (if strict_equals
           (case parent node of None \<Rightarrow> JUndefined | Some p \<Rightarrow> JNumber (nodeType p))
           (enum_member E ''arrayofobjects'')
      then []
      else ''<span class="key">'' @ key node @ ''</span>: '')\<close>

definition HTML_nodeValue :: "node \<Rightarrow> string" where
  \<open>HTML_nodeValue node =
     (if isLeaf node
      then ''<span class="value'' @ (if isCircular node then '' circular'' else []) @
           ''">'' @ toString node @ ''</span> '' @ HTML_circularReference node
      else [])\<close>

definition HTML_listType :: "enum_object \<Rightarrow> node \<Rightarrow> string" where
  \<open>HTML_listType E node =
     (if strict_equals (JNumber (nodeType node)) (enum_member E ''arrayofobjects'')
      then ''ol start="0"'' else ''ul'')\<close>

definition defaultHTMLProcessor ::
  "enum_object \<Rightarrow> node \<Rightarrow> utils_state \<Rightarrow> string \<times> utils_state" where
  \<open>defaultHTMLProcessor E node s =
     (let result = [];
          nodeTypeClass = HTML_nodeTypeClass E node;
          nodeKey = HTML_nodeKey E node;
          nodeValue = HTML_nodeValue node;
          result =
            (if parent node \<noteq> None
             then ''<li id="'' @ path node @ ''" class="leaf '' @ nodeTypeClass @ ''">'' @
                  ''\<newline>'' @ nodeKey @ nodeValue
             else result);
          result =
            (if isBranch node
             then (let listType = HTML_listType E node;
                       list = ''<'' @ listType @ '' id="list@'' @ path node @
                              ''" class="branch '' @ nodeTypeClass @ ''">'';
                       list = foldl append_processResult list (children node);
                       list = list @ ''\<newline></'' @ take 2 listType @ ''>''
                   in result @ ''\<newline>'' @ list)
             else result);
          result = (if parent node \<noteq> None then result @ ''\<newline></li>'' else result)
      in (result, s))\<close>

text \<open>
  \<open>replace_line_breaks s\<close> is \<open>s.replace( /\r?\n|\r/g, '\\n' )\<close>: every CR LF pair, LF
  and CR becomes a backslash followed by the letter n.
\<close>

fun replace_line_breaks :: "string \<Rightarrow> string" where
  "replace_line_breaks [] = []"
| "replace_line_breaks [c] =
     (if c = CHR 0x0D \<or> c = CHR 0x0A then [CHR 0x5C, CHR ''n''] else [c])"
| "replace_line_breaks (c # d # cs) =
     (if c = CHR 0x0D \<and> d = CHR 0x0A then [CHR 0x5C, CHR ''n''] @ replace_line_breaks cs
      else if c = CHR 0x0D \<or> c = CHR 0x0A
           then [CHR 0x5C, CHR ''n''] @ replace_line_breaks (d # cs)
      else c # replace_line_breaks (d # cs))"

text \<open>\<open>ancestor_paths es\<close> is \<open>es.map( element => element.value.path )\<close>.\<close>

fun ancestor_paths :: "node list \<Rightarrow> error + jsvalue list" where
  "ancestor_paths [] = Inr []"
| "ancestor_paths (element # es) =
     (case get_path (nvalue element) of
        Inl e \<Rightarrow> Inl e
      | Inr p \<Rightarrow> (case ancestor_paths es of Inl e \<Rightarrow> Inl e | Inr ps \<Rightarrow> Inr (p # ps)))"

text \<open>
  The debug strategy reads properties of values of type \<open>any\<close>, so it can throw; its result
  is \<open>Inl TypeError\<close> then. The statements are taken in the order of the source:
  \<open>Debug_circular\<close> is the binding \<open>circular\<close>; \<open>Debug_nodeValueString\<close> is the variable
  \<open>nodeValueString\<close> after its three conditional assignments (the one for \<open>ancestors\<close>
  is reached only past the \<open>return ''\<close> that precedes it); \<open>Debug_suppressed\<close> is the
  sequence of the four tests \<open>if ( ... ) return ''\<close> that follow, of which the last one
  reads \<open>node.value.length\<close>.
\<close>

definition Debug_circular :: "node \<Rightarrow> error + jsvalue" where
  "Debug_circular node =
     (case (if isCircular node then circularRefNode node else None) of
        Some r \<Rightarrow> (case get_path (nvalue r) of
                     Inl e \<Rightarrow> Inl e
                   | Inr p \<Rightarrow> Inr (nullish_coalesce p (JString (key r))))
      | None \<Rightarrow> Inr (JString []))"

definition Debug_nodeValueString :: "enum_object \<Rightarrow> node \<Rightarrow> error + jsvalue" where
  "Debug_nodeValueString E node =
     (let nodeValueString = JString (toString node);
          nodeValueString =
            (if key node = ''processResult''
             then JString (replace_line_breaks (toString node))
             else nodeValueString);
          nodeValueString =
            (if key node = ''nodeType''
             then nodeTypeToString E (nvalue node)
             else nodeValueString)
      in if key node = ''ancestors''
         then (case ancestor_paths (ancestors node) of
                 Inl e \<Rightarrow> Inl e
               | Inr ps \<Rightarrow> Inr (JString (''['' @ join_elements '', '' ps @ '']'')))
         else Inr nodeValueString)"

definition Debug_suppressed :: "node \<Rightarrow> error + bool" where
  "Debug_suppressed node =
     (if key node = ''circularRefIndex'' \<and> js_less_than (nvalue node) 0 then Inr True
      else if key node = ''circularRefNode'' \<and> nvalue node = JNull then Inr True
      else if key node = ''isCircular'' \<and> \<not> loose_equals_true (nvalue node) then Inr True
      else if key node = ''children''
           then (case get_length (nvalue node) of
                   Inl e \<Rightarrow> Inl e
                 | Inr len \<Rightarrow> Inr (js_less_than len 1))
      else Inr False)"

definition debugProcessor ::
  "enum_object \<Rightarrow> node \<Rightarrow> utils_state \<Rightarrow> (error + string) \<times> utils_state" where
  "debugProcessor E node s =
     (case Debug_circular node of
        Inl e \<Rightarrow> (Inl e, s)
      | Inr circular \<Rightarrow>
         if key node = ''ancestors'' \<and> circularRefNode node = None then (Inr [], s)
         else
          (case Debug_nodeValueString E node of
             Inl e \<Rightarrow> (Inl e, s)
           | Inr nodeValueString \<Rightarrow>
              (case Debug_suppressed node of
                 Inl e \<Rightarrow> (Inl e, s)
               | Inr suppressed \<Rightarrow>
                  if suppressed then (Inr [], s)
                  else
                   (let result =
                          StructureColor s (prefix node @ joint node) @
                          KeyColor s (key node) @
                          ValueColor s
                            (if isLeaf node \<or> key node = ''ancestors''
                             then '' '' @ ToString nodeValueString else []) @
                          CircularColor s ('' '' @ ToString circular);
                        result =
                          (if isBranch node \<and> \<not> (key node = ''ancestors'')
                           then foldl append_processResult result (children node)
                           else result)
                    in (Inr result, s)))))"

text \<open>
  \<open>debugResultNode\<close>: the traversal engine is the class \<open>Treeifier\<close> of the core library.
  Its method \<open>process\<close> and the engine that \<open>new Treeifier()\<close> constructs are parameters.
\<close>

definition debugResultNode ::
  "('t \<Rightarrow> node \<Rightarrow> string \<Rightarrow> (node \<Rightarrow> utils_state \<Rightarrow> (error + string) \<times> utils_state)
      \<Rightarrow> utils_state \<Rightarrow> 'r)
   \<Rightarrow> 't \<Rightarrow> enum_object \<Rightarrow> node \<Rightarrow> 't option \<Rightarrow> utils_state \<Rightarrow> 'r" where
  "debugResultNode process new_Treeifier E rootnode treeifier s =
     (let debugTreeifier = (case treeifier of None \<Rightarrow> new_Treeifier | Some t \<Rightarrow> t)
      in process debugTreeifier rootnode (''debug@'' @ key rootnode) (debugProcessor E) s)"


section \<open>Notions used to state the properties\<close>

text \<open>
  \<open>child_lines rs\<close> is the text that a list \<open>rs\<close> of cached child results contributes:
  every non-empty result, in order, each after one newline. \<open>without_children n\<close> is the
  node \<open>n\<close> with an empty \<open>children\<close> sequence; a strategy renders the node's own part
  on it. \<open>starts_with\<close> and \<open>ends_with\<close> compare the beginning and the end of a string;
  \<open>contains_text s t\<close> holds when \<open>t\<close> occurs somewhere in \<open>s\<close>.
\<close>

definition child_lines :: "string list \<Rightarrow> string" where
  "child_lines rs = concat (map (\<lambda>r. ''\<newline>'' @ r) (filter (\<lambda>r. r \<noteq> []) rs))"

definition without_children :: "node \<Rightarrow> node" where
  "without_children n =
     Node (key n) (nvalue n) (nodeType n) (parent n) (ancestors n) (isCircular n)
       (circularRefNode n) (isLeaf n) (isBranch n) (prefix n) (joint n) []
       (processResult n) (path n) (toString n)"

definition starts_with :: "string \<Rightarrow> string \<Rightarrow> bool" where
  "starts_with s t = (take (length t) s = t)"

definition ends_with :: "string \<Rightarrow> string \<Rightarrow> bool" where
  "ends_with s t = (length t \<le> length s \<and> drop (length s - length t) s = t)"

fun contains_text :: "string \<Rightarrow> string \<Rightarrow> bool" where
  "contains_text [] t = (t = [])"
| "contains_text (c # cs) t = (starts_with (c # cs) t \<or> contains_text cs t)"

text \<open>
  Concrete inputs. \<open>plain_styles\<close> is a registry whose style functions return their text
  unchanged, as chalk does when colours are switched off. \<open>example_enum\<close> is a numeric
  enum object with three members. The nodes are a root object \<open>root\<close>, its property
  \<open>self\<close> that refers back to the root, once with and once without the referenced node,
  its property \<open>items\<close> (an array of objects) with three elements whose cached results are
  \<open>a\<close>, the empty string and \<open>b\<close>, the element \<open>0\<close> of \<open>items\<close> as a node with its
  parent, an array \<open>list\<close> whose two elements carry their Types View rendering, and nodes
  of a debug tree (\<open>debug_attribute\<close> is a leaf for one attribute, \<open>debug_ancestors\<close> an
  \<open>ancestors\<close> branch of a circular node, \<open>debug_children_object\<close> a property named
  \<open>children\<close> whose value is the object \<open>{length: -2, a: 1}\<close>). \<open>other_defaults\<close> is
  \<open>plain_styles\<close> with another default key style.
\<close>

definition plain_styles :: utils_state where
  "plain_styles =
     \<lparr>defaultStructureColor = (\<lambda>x. x), defaultKeyColor = (\<lambda>x. x),
      defaultValueColor = (\<lambda>x. x), defaultCircularColor = (\<lambda>x. x),
      StructureColor = (\<lambda>x. x), KeyColor = (\<lambda>x. x),
      ValueColor = (\<lambda>x. x), CircularColor = (\<lambda>x. x)\<rparr>"

definition example_enum :: enum_object where
  "example_enum =
     [(''string'', JNumber 2), (''2'', JString ''string''),
      (''arrayofobjects'', JNumber 8), (''8'', JString ''arrayofobjects''),
      (''nonEmptyObject'', JNumber 11), (''11'', JString ''nonEmptyObject'')]"

definition example_root :: node where
  "example_root =
     Node ''root'' (JObject []) 11 None [] False None False True [] [] []
       JUndefined ''root'' ''[object Object]''"

definition circular_leaf :: node where
  "circular_leaf =
     Node ''self'' (JObject []) 11 (Some example_root) [example_root] True
       (Some example_root) True False [] ''+- '' [] JUndefined ''root.self'' ''[circular]''"

definition circular_leaf_without_ref :: node where
  "circular_leaf_without_ref =
     Node ''self'' (JObject []) 11 (Some example_root) [example_root] True
       None True False [] ''+- '' [] JUndefined ''root.self'' ''[circular]''"

definition example_child :: "string \<Rightarrow> string \<Rightarrow> node" where
  "example_child k r =
     Node k (JString r) 2 None [] False None True False [] [] []
       (JString r) (''root.items.'' @ k) r"

definition example_items :: node where
  "example_items =
     Node ''items'' (JArray []) 8 (Some example_root) [example_root] False None False True
       [] ''+- ''
       [example_child ''0'' ''a'', example_child ''1'' [], example_child ''2'' ''b'']
       JUndefined ''root.items'' ''[object Array]''"


definition debug_ancestors :: node where
  "debug_ancestors =
     Node ''ancestors'' (JArray []) 8 (Some example_root) [example_root] False
       (Some example_root) False True [] ''+- ''
       [example_child ''0'' ''a'']
       JUndefined ''root.ancestors'' ''[object Array]''"

definition example_element :: node where
  "example_element =
     Node ''0'' (JString ''a'') 2 (Some example_items) [example_root, example_items] False
       None True False ''   '' ''+- '' [] JUndefined ''root.items.0'' ''a''"



definition other_defaults :: utils_state where
  "other_defaults = plain_styles\<lparr>defaultKeyColor := (\<lambda>x. ''key'')\<rparr>"



section \<open>The loop over the children\<close>

lemma foldl_append_processResult:
  "foldl append_processResult acc cs =
     acc @ concat (map (\<lambda>c. if ToBoolean (processResult c)
                             then ''\<newline>'' @ ToString (processResult c) else []) cs)"
  by (induction cs arbitrary: acc) (simp_all add: append_processResult_def)

lemma child_lines_of_results:
  "map processResult cs = map JString rs \<Longrightarrow>
     concat (map (\<lambda>c. if ToBoolean (processResult c)
                      then ''\<newline>'' @ ToString (processResult c) else []) cs)
       = child_lines rs"
proof (induction cs arbitrary: rs)
  case Nil
  then show ?case by (simp add: child_lines_def)
next
  case (Cons c cs)
  then obtain r rs' where rs: "rs = r # rs'" "processResult c = JString r"
    "map processResult cs = map JString rs'"
    by (cases rs) auto
  with Cons.IH [of rs'] show ?case by (simp add: child_lines_def)
qed

lemma foldl_child_lines:
  "map processResult cs = map JString rs \<Longrightarrow>
     foldl append_processResult acc cs = acc @ child_lines rs"
  by (simp add: foldl_append_processResult child_lines_of_results)


lemma without_children_simps [simp]:
  "key (without_children n) = key n"
  "nvalue (without_children n) = nvalue n"
  "nodeType (without_children n) = nodeType n"
  "parent (without_children n) = parent n"
  "ancestors (without_children n) = ancestors n"
  "isCircular (without_children n) = isCircular n"
  "circularRefNode (without_children n) = circularRefNode n"
  "isLeaf (without_children n) = isLeaf n"
  "isBranch (without_children n) = isBranch n"
  "prefix (without_children n) = prefix n"
  "joint (without_children n) = joint n"
  "children (without_children n) = []"
  "processResult (without_children n) = processResult n"
  "path (without_children n) = path n"
  "toString (without_children n) = toString n"
  by (simp_all add: without_children_def)

lemma starts_with_Cons [simp]:
  "starts_with (c # r) (d # t) = (c = d \<and> starts_with r t)"
  by (auto simp add: starts_with_def)

lemma starts_with_append [simp]:
  "starts_with (a @ r) (a @ t) = starts_with r t"
  by (simp add: starts_with_def)

lemma starts_with_Nil [simp]:
  "starts_with r [] = True"
  "starts_with [] (d # t) = False"
  by (simp_all add: starts_with_def)


section \<open>The state of the registry across a strategy\<close>

lemma types_state: "snd (defaultColoredTypesProcessor E n s) = s"
  by (simp add: defaultColoredTypesProcessor_def Let_def)

lemma values_state: "snd (defaultColoredValuesProcessor n s) = s"
  by (simp add: defaultColoredValuesProcessor_def Let_def)

lemma html_state: "snd (defaultHTMLProcessor E n s) = s"
  by (simp add: defaultHTMLProcessor_def Let_def)

lemma debug_state: "snd (debugProcessor E n s) = s"
  by (simp add: debugProcessor_def Let_def split: sum.split)


section \<open>The output of each strategy on a branch node\<close>

lemma types_with_children:
  assumes "isBranch n" and "map processResult (children n) = map JString rs"
  shows "fst (defaultColoredTypesProcessor E n s)
     = fst (defaultColoredTypesProcessor E (without_children n) s) @ child_lines rs"
  using assms
  by (simp add: defaultColoredTypesProcessor_def Let_def foldl_child_lines)

lemma values_with_children:
  assumes "isBranch n" and "map processResult (children n) = map JString rs"
  shows "fst (defaultColoredValuesProcessor n s)
     = fst (defaultColoredValuesProcessor (without_children n) s) @ child_lines rs"
  using assms
  by (simp add: defaultColoredValuesProcessor_def Let_def foldl_child_lines
      Values_circular_def Values_nodeValue_def)

lemma html_branch_output:
  assumes "isBranch n"
  shows \<open>fst (defaultHTMLProcessor E n s) =
     (if parent n \<noteq> None
      then ''<li id="'' @ path n @ ''" class="leaf '' @ HTML_nodeTypeClass E n @ ''">'' @
           ''\<newline>'' @ HTML_nodeKey E n @ HTML_nodeValue n
      else []) @
     ''\<newline>'' @ ''<'' @ HTML_listType E n @ '' id="list@'' @ path n @
     ''" class="branch '' @ HTML_nodeTypeClass E n @ ''">'' @
     foldl append_processResult [] (children n) @
     ''\<newline></'' @ take 2 (HTML_listType E n) @ ''>'' @
     (if parent n \<noteq> None then ''\<newline></li>'' else [])\<close>
  using assms
  by (simp add: defaultHTMLProcessor_def Let_def foldl_append_processResult)

lemma html_item_output:
  assumes "parent n \<noteq> None"
  shows \<open>fst (defaultHTMLProcessor E n s) =
     ''<li id="'' @ path n @ ''" class="leaf '' @ HTML_nodeTypeClass E n @ ''">'' @
     ''\<newline>'' @ HTML_nodeKey E n @ HTML_nodeValue n @
     (if isBranch n
      then ''\<newline>'' @ ''<'' @ HTML_listType E n @ '' id="list@'' @ path n @
           ''" class="branch '' @ HTML_nodeTypeClass E n @ ''">'' @
           foldl append_processResult [] (children n) @
           ''\<newline></'' @ take 2 (HTML_listType E n) @ ''>''
      else []) @
     ''\<newline></li>''\<close>
  using assms
  by (simp add: defaultHTMLProcessor_def Let_def foldl_append_processResult)

lemma Debug_bindings_without_children [simp]:
  "Debug_circular (without_children n) = Debug_circular n"
  "Debug_nodeValueString E (without_children n) = Debug_nodeValueString E n"
  "Debug_suppressed (without_children n) = Debug_suppressed n"
  by (simp_all add: Debug_circular_def Debug_nodeValueString_def Debug_suppressed_def)

lemma debug_with_children:
  assumes "isBranch n" and "map processResult (children n) = map JString rs"
    and "key n \<noteq> ''ancestors''"
  shows "fst (debugProcessor E (without_children n) s) = Inr own \<longrightarrow> own \<noteq> [] \<longrightarrow>
     fst (debugProcessor E n s) = Inr (own @ child_lines rs)"
  using assms
  by (simp add: debugProcessor_def Let_def foldl_child_lines split: sum.split)

lemma debug_ancestors_without_children:
  assumes "key n = ''ancestors''"
  shows "fst (debugProcessor E n s) = fst (debugProcessor E (without_children n) s)"
  using assms
  by (cases "circularRefNode n") (simp_all add: debugProcessor_def Let_def split: sum.split)


section \<open>The stages of the debug strategy\<close>
















section \<open>Values View: the circular annotation\<close>

text \<open>
  C1. The claim: in the Values View the line of a circular node ends with the annotation
  \<open>-> key\<close> of the referenced node, and with \<open>-> ?\<close> when \<open>circularRefNode\<close> is none
  while \<open>isCircular\<close> is true. On the code the second part fails: for the circular leaf
  \<open>self\<close> without a referenced node the Values View renders \<open>-> undefined\<close>, because the
  fallback \<open>?? '?'\<close> applies to the concatenation \<open>' -> ' + undefined\<close>, which is never
  nullish. The line does not end with \<open>-> ?\<close>. The HTML View computes the same key with
  \<open>node.circularRefNode?.key ?? '?'\<close> and obtains \<open>?\<close> on the same node. With the
  referenced node \<open>root\<close> present the line ends with \<open>-> root\<close>.
\<close>

theorem values_circular_without_ref_renders_undefined:
  "isCircular circular_leaf_without_ref
   \<and> circularRefNode circular_leaf_without_ref = None
   \<and> fst (defaultColoredValuesProcessor circular_leaf_without_ref plain_styles)
       = ''+- self : [circular] -> undefined''
   \<and> \<not> ends_with (fst (defaultColoredValuesProcessor circular_leaf_without_ref plain_styles))
         ''-> ?''
   \<and> ToString (HTML_circularKey circular_leaf_without_ref) = ''?''
   \<and> fst (defaultColoredValuesProcessor circular_leaf plain_styles)
       = ''+- self : [circular] -> root''"
  by (simp add: circular_leaf_without_ref_def circular_leaf_def example_root_def
      plain_styles_def defaultColoredValuesProcessor_def Values_circular_def
      Values_nodeValue_def HTML_circularKey_def nullish_coalesce_def ends_with_def Let_def)


section \<open>Aggregation of the cached child results\<close>

text \<open>
  C2, as stated: for every branch node and each strategy the output is the node's own line
  followed by the non-empty child results, each after one newline. It fails for the HTML
  View and for the Debug View. On the branch \<open>items\<close>, whose children have the results
  \<open>a\<close>, the empty string and \<open>b\<close>, the HTML output is not the node's own output followed by
  the child lines, and it does not end with the last child's line: the closing tags follow
  the children. On the \<open>ancestors\<close> branch the Debug View leaves the child result \<open>a\<close>
  out.
\<close>

theorem aggregation_counterexample:
  "isBranch example_items
   \<and> map processResult (children example_items) = map JString [''a'', [], ''b'']
   \<and> fst (defaultHTMLProcessor example_enum example_items plain_styles)
       \<noteq> fst (defaultHTMLProcessor example_enum (without_children example_items) plain_styles)
         @ child_lines [''a'', [], ''b'']
   \<and> \<not> ends_with (fst (defaultHTMLProcessor example_enum example_items plain_styles))
         ''\<newline>b''
   \<and> isBranch debug_ancestors
   \<and> map processResult (children debug_ancestors) = map JString [''a'']
   \<and> fst (debugProcessor example_enum debug_ancestors plain_styles)
       = Inr ''+- ancestors [] ''"
  by (simp add: example_items_def example_child_def example_root_def example_enum_def
      debug_ancestors_def plain_styles_def defaultHTMLProcessor_def HTML_nodeTypeClass_def
      HTML_nodeKey_def HTML_nodeValue_def HTML_listType_def nodeTypeToString_def
      enum_member_def strict_equals_def append_processResult_def without_children_def
      child_lines_def ends_with_def debugProcessor_def Debug_circular_def
      Debug_nodeValueString_def Debug_suppressed_def nullish_coalesce_def Let_def)

text \<open>
  C2, amended. Let \<open>n\<close> be a branch node whose children hold the cached results \<open>rs\<close>, in
  child order. The Types View and the Values View return the node's own line (their output
  on the node without children) followed by \<open>child_lines rs\<close>: every non-empty result, in
  order, each after exactly one newline, and nothing for an empty result. The HTML View
  places \<open>child_lines rs\<close> between the opening tag of the node's list and the closing tag.
  The Debug View returns its own line followed by \<open>child_lines rs\<close> when the key is not
  \<open>ancestors\<close> and the own line is rendered (not empty); for the key \<open>ancestors\<close> the
  children contribute nothing. Every strategy reads the children's results only.
\<close>

theorem aggregation_of_child_results:
  assumes "isBranch n" and "map processResult (children n) = map JString rs"
  shows \<open>fst (defaultColoredTypesProcessor E n s)
           = fst (defaultColoredTypesProcessor E (without_children n) s) @ child_lines rs
       \<and> fst (defaultColoredValuesProcessor n s)
           = fst (defaultColoredValuesProcessor (without_children n) s) @ child_lines rs
       \<and> fst (defaultHTMLProcessor E n s)
           = (if parent n \<noteq> None
              then ''<li id="'' @ path n @ ''" class="leaf '' @ HTML_nodeTypeClass E n @
                   ''">'' @ ''\<newline>'' @ HTML_nodeKey E n @ HTML_nodeValue n
              else []) @
             ''\<newline>'' @ ''<'' @ HTML_listType E n @ '' id="list@'' @ path n @
             ''" class="branch '' @ HTML_nodeTypeClass E n @ ''">'' @
             child_lines rs @
             ''\<newline></'' @ take 2 (HTML_listType E n) @ ''>'' @
             (if parent n \<noteq> None then ''\<newline></li>'' else [])
       \<and> (key n \<noteq> ''ancestors'' \<longrightarrow>
            (\<forall>own. fst (debugProcessor E (without_children n) s) = Inr own \<and> own \<noteq> [] \<longrightarrow>
               fst (debugProcessor E n s) = Inr (own @ child_lines rs)))
       \<and> (key n = ''ancestors'' \<longrightarrow>
            fst (debugProcessor E n s) = fst (debugProcessor E (without_children n) s))\<close>
proof (intro conjI)
  show "fst (defaultColoredTypesProcessor E n s)
      = fst (defaultColoredTypesProcessor E (without_children n) s) @ child_lines rs"
    using assms by (rule types_with_children)
  show "fst (defaultColoredValuesProcessor n s)
      = fst (defaultColoredValuesProcessor (without_children n) s) @ child_lines rs"
    using assms by (rule values_with_children)
  show \<open>fst (defaultHTMLProcessor E n s)
           = (if parent n \<noteq> None
              then ''<li id="'' @ path n @ ''" class="leaf '' @ HTML_nodeTypeClass E n @
                   ''">'' @ ''\<newline>'' @ HTML_nodeKey E n @ HTML_nodeValue n
              else []) @
             ''\<newline>'' @ ''<'' @ HTML_listType E n @ '' id="list@'' @ path n @
             ''" class="branch '' @ HTML_nodeTypeClass E n @ ''">'' @
             child_lines rs @
             ''\<newline></'' @ take 2 (HTML_listType E n) @ ''>'' @
             (if parent n \<noteq> None then ''\<newline></li>'' else [])\<close>
    using html_branch_output [OF assms(1), of E s] foldl_child_lines [OF assms(2), of "[]"]
    by simp
  show "key n \<noteq> ''ancestors'' \<longrightarrow>
            (\<forall>own. fst (debugProcessor E (without_children n) s) = Inr own \<and> own \<noteq> [] \<longrightarrow>
               fst (debugProcessor E n s) = Inr (own @ child_lines rs))"
    using debug_with_children [OF assms] by blast
  show "key n = ''ancestors'' \<longrightarrow>
            fst (debugProcessor E n s) = fst (debugProcessor E (without_children n) s)"
    using debug_ancestors_without_children by blast
qed

theorem aggregation_of_child_results_witness:
  \<open>fst (defaultColoredTypesProcessor example_enum example_items plain_styles)
     = ''+- items : arrayofobjects\<newline>a\<newline>b''
   \<and> fst (defaultColoredValuesProcessor example_items plain_styles)
     = ''+- items\<newline>a\<newline>b''
   \<and> fst (defaultHTMLProcessor example_enum example_items plain_styles)
     = ''<li id="root.items" class="leaf nt_arrayofobjects">'' @ ''\<newline>'' @
       ''<span class="key">items</span>: '' @ ''\<newline>'' @
       ''<ol start="0" id="list@root.items" class="branch nt_arrayofobjects">'' @
       ''\<newline>a\<newline>b'' @ ''\<newline></ol>'' @ ''\<newline></li>''
   \<and> fst (debugProcessor example_enum example_items plain_styles)
     = Inr ''+- items \<newline>a\<newline>b''
   \<and> fst (debugProcessor example_enum debug_ancestors plain_styles)
     = fst (debugProcessor example_enum (without_children debug_ancestors) plain_styles)\<close>
  using aggregation_of_child_results
          [where n = example_items and rs = "[''a'', [], ''b'']" and E = example_enum
             and s = plain_styles]
        aggregation_of_child_results
          [where n = debug_ancestors and rs = "[''a'']" and E = example_enum
             and s = plain_styles]
  by (simp add: example_items_def example_child_def example_root_def example_enum_def
      debug_ancestors_def plain_styles_def defaultColoredTypesProcessor_def
      defaultColoredValuesProcessor_def Values_circular_def Values_nodeValue_def
      HTML_nodeTypeClass_def HTML_nodeKey_def HTML_nodeValue_def HTML_listType_def
      nodeTypeToString_def enum_member_def strict_equals_def without_children_def
      child_lines_def debugProcessor_def Debug_circular_def Debug_nodeValueString_def
      Debug_suppressed_def nullish_coalesce_def Let_def)


section \<open>Debug View: the suppressed attributes\<close>





section \<open>HTML View: list items and lists\<close>

text \<open>
  C4, as stated: the class attribute of a non-root node's list item carries \<open>leaf\<close> or
  \<open>branch\<close> according to the node. It fails on the non-root branch \<open>items\<close>: the node is
  a branch and not a leaf, and its list item has the class \<open>leaf nt_arrayofobjects\<close>; the
  marker \<open>branch\<close> is on the list inside the item.
\<close>

theorem html_branch_item_class_counterexample:
  \<open>isBranch example_items \<and> \<not> isLeaf example_items
   \<and> parent example_items = Some example_root
   \<and> fst (defaultHTMLProcessor example_enum example_items plain_styles)
     = ''<li id="root.items" class="leaf nt_arrayofobjects">'' @ ''\<newline>'' @
       ''<span class="key">items</span>: '' @ ''\<newline>'' @
       ''<ol start="0" id="list@root.items" class="branch nt_arrayofobjects">'' @
       ''\<newline>a\<newline>b\<newline></ol>\<newline></li>''\<close>
  by (simp add: example_items_def example_child_def example_root_def example_enum_def
      plain_styles_def defaultHTMLProcessor_def HTML_nodeTypeClass_def HTML_nodeKey_def
      HTML_nodeValue_def HTML_listType_def nodeTypeToString_def enum_member_def
      strict_equals_def append_processResult_def Let_def)

text \<open>
  C4, amended. Every non-root node is emitted as a list item, from \<open><li ...>\<close> to
  \<open></li>\<close>, whose id attribute is the node's path and whose class attribute is \<open>leaf\<close>
  followed by the kind class \<open>nt_\<close> with the name that \<open>nodeTypeToString\<close> gives for the
  node's kind, for a leaf and for a branch alike. The marker \<open>branch\<close> stands, with the
  same kind class, in the class attribute of the list that a branch node emits.
\<close>

theorem html_list_item_id_and_class:
  \<open>(parent n \<noteq> None \<longrightarrow>
      (\<exists>rest. fst (defaultHTMLProcessor E n s)
         = ''<li id="'' @ path n @ ''" class="leaf nt_'' @
           ToString (nodeTypeToString E (JNumber (nodeType n))) @ ''">'' @
           rest @ ''\<newline></li>''))
   \<and> (isBranch n \<longrightarrow>
      (\<exists>head tail. fst (defaultHTMLProcessor E n s)
         = head @ ''<'' @ (if strict_equals (JNumber (nodeType n))
                                (enum_member E ''arrayofobjects'')
                           then ''ol start="0"'' else ''ul'') @
           '' id="list@'' @ path n @ ''" class="branch nt_'' @
           ToString (nodeTypeToString E (JNumber (nodeType n))) @ ''">'' @ tail))\<close>
proof (intro conjI impI)
  assume "parent n \<noteq> None"
  from html_item_output [OF this, of E s]
  show \<open>\<exists>rest. fst (defaultHTMLProcessor E n s)
         = ''<li id="'' @ path n @ ''" class="leaf nt_'' @
           ToString (nodeTypeToString E (JNumber (nodeType n))) @ ''">'' @
           rest @ ''\<newline></li>''\<close>
    by (simp add: HTML_nodeTypeClass_def)
next
  assume "isBranch n"
  from html_branch_output [OF this, of E s]
  have \<open>fst (defaultHTMLProcessor E n s)
      = ((if parent n \<noteq> None
          then ''<li id="'' @ path n @ ''" class="leaf '' @ HTML_nodeTypeClass E n @ ''">'' @
               ''\<newline>'' @ HTML_nodeKey E n @ HTML_nodeValue n
          else []) @ ''\<newline>'') @
        ''<'' @ (if strict_equals (JNumber (nodeType n)) (enum_member E ''arrayofobjects'')
                 then ''ol start="0"'' else ''ul'') @
        '' id="list@'' @ path n @ ''" class="branch nt_'' @
        ToString (nodeTypeToString E (JNumber (nodeType n))) @ ''">'' @
        (foldl append_processResult [] (children n) @
         ''\<newline></'' @ take 2 (HTML_listType E n) @ ''>'' @
         (if parent n \<noteq> None then ''\<newline></li>'' else []))\<close>
    by (simp add: HTML_nodeTypeClass_def HTML_listType_def)
  then show \<open>\<exists>head tail. fst (defaultHTMLProcessor E n s)
         = head @ ''<'' @ (if strict_equals (JNumber (nodeType n))
                                (enum_member E ''arrayofobjects'')
                           then ''ol start="0"'' else ''ul'') @
           '' id="list@'' @ path n @ ''" class="branch nt_'' @
           ToString (nodeTypeToString E (JNumber (nodeType n))) @ ''">'' @ tail\<close>
    by blast
qed

theorem html_list_item_id_and_class_witness:
  \<open>fst (defaultHTMLProcessor example_enum example_element plain_styles)
     = ''<li id="root.items.0" class="leaf nt_string">'' @ ''\<newline>'' @
       ''<span class="value">a</span> '' @ ''\<newline></li>''
   \<and> (\<exists>head tail. fst (defaultHTMLProcessor example_enum example_items plain_styles)
         = head @ ''<ol start="0" id="list@root.items" class="branch nt_arrayofobjects">'' @
           tail)\<close>
  using html_list_item_id_and_class
          [where n = example_element and E = example_enum and s = plain_styles]
        html_list_item_id_and_class
          [where n = example_items and E = example_enum and s = plain_styles]
  by (simp add: example_element_def example_items_def example_child_def example_root_def
      example_enum_def plain_styles_def defaultHTMLProcessor_def HTML_nodeTypeClass_def
      HTML_nodeKey_def HTML_nodeValue_def HTML_listType_def HTML_circularReference_def
      nodeTypeToString_def enum_member_def strict_equals_def Let_def)

text \<open>
  C5, as stated: a node's key label span is omitted if and only if the parent's kind is
  array-of-objects. It fails on the root node: the root has no parent, the test
  \<open>node.parent?.nodeType === TreeifierNodeTypes.arrayofobjects\<close> is false for it, and its
  output holds no key label span, because the list item that would carry the label is
  emitted for a node with a parent only.
\<close>

theorem html_root_key_label_counterexample:
  \<open>parent example_root = None
   \<and> \<not> strict_equals
         (case parent example_root of None \<Rightarrow> JUndefined | Some p \<Rightarrow> JNumber (nodeType p))
         (enum_member example_enum ''arrayofobjects'')
   \<and> fst (defaultHTMLProcessor example_enum example_root plain_styles)
       = ''\<newline><ul id="list@root" class="branch nt_nonEmptyObject">'' @ ''\<newline></ul>''
   \<and> \<not> contains_text (fst (defaultHTMLProcessor example_enum example_root plain_styles))
         ''<span class="key">''\<close>
  by (simp add: example_root_def example_enum_def plain_styles_def defaultHTMLProcessor_def
      HTML_nodeTypeClass_def HTML_nodeKey_def HTML_nodeValue_def HTML_listType_def
      nodeTypeToString_def enum_member_def strict_equals_def Let_def)

text \<open>
  C5, amended. The output of the HTML View is, for every node, the text written out below.
  A node with a parent is a list item whose opening tag is followed, on the next line, by
  the key label span \<open><span class="key">key</span>: \<close> unless the parent's kind is
  array-of-objects: then nothing stands between the opening tag and the value span, the
  list or the closing tag, so that for a node with a parent the label is omitted if and
  only if the parent's kind is array-of-objects. The root node has no list item and no key
  label span. For a branch node the list is opened with \<open>ol start="0"\<close> if the node's own
  kind is array-of-objects and with \<open>ul\<close> otherwise, its id is \<open>list@\<close> followed by the
  node's path, and it is closed with \<open></ol>\<close> in the first case and \<open></ul>\<close> in the
  second.
\<close>

theorem html_key_label_and_list_tags:
  \<open>fst (defaultHTMLProcessor E n s) =
     (case parent n of
        None \<Rightarrow> []
      | Some p \<Rightarrow>
          ''<li id="'' @ path n @ ''" class="leaf nt_'' @
          ToString (nodeTypeToString E (JNumber (nodeType n))) @ ''">'' @ ''\<newline>'' @
          (if strict_equals (JNumber (nodeType p)) (enum_member E ''arrayofobjects'')
           then []
           else ''<span class="key">'' @ key n @ ''</span>: '') @
          (if isLeaf n
           then ''<span class="value'' @ (if isCircular n then '' circular'' else []) @
                ''">'' @ toString n @ ''</span> '' @
                (if isCircular n
                 then ''<span class="circularlink"><a href="#list@'' @
                      (case circularRefNode n of None \<Rightarrow> [] | Some r \<Rightarrow> path r) @ ''">'' @
                      (case circularRefNode n of None \<Rightarrow> ''?'' | Some r \<Rightarrow> key r) @
                      ''</a></span>''
                 else [])
           else [])) @
     (if isBranch n
      then ''\<newline>'' @ ''<'' @
           (if strict_equals (JNumber (nodeType n)) (enum_member E ''arrayofobjects'')
            then ''ol start="0"'' else ''ul'') @
           '' id="list@'' @ path n @ ''" class="branch nt_'' @
           ToString (nodeTypeToString E (JNumber (nodeType n))) @ ''">'' @
           concat (map (\<lambda>c. if ToBoolean (processResult c)
                             then ''\<newline>'' @ ToString (processResult c) else [])
                    (children n)) @
           ''\<newline></'' @
           (if strict_equals (JNumber (nodeType n)) (enum_member E ''arrayofobjects'')
            then ''ol'' else ''ul'') @ ''>''
      else []) @
     (case parent n of None \<Rightarrow> [] | Some p \<Rightarrow> ''\<newline></li>'')
   \<and> (\<forall>p. parent n = Some p \<longrightarrow>
        (starts_with (fst (defaultHTMLProcessor E n s))
           (''<li id="'' @ path n @ ''" class="leaf nt_'' @
            ToString (nodeTypeToString E (JNumber (nodeType n))) @ ''">'' @
            ''\<newline>'' @ ''<span class="key">'' @ key n @ ''</span>: '')
         \<longleftrightarrow> \<not> strict_equals (JNumber (nodeType p)) (enum_member E ''arrayofobjects'')))\<close>
  (is "?layout \<and> ?label")
proof
  show ?layout
  proof (cases "parent n")
    case None
    then show ?thesis
      by (simp add: defaultHTMLProcessor_def Let_def foldl_append_processResult
          HTML_nodeTypeClass_def HTML_listType_def)
  next
    case (Some p)
    then show ?thesis
      by (cases "circularRefNode n")
         (simp_all add: defaultHTMLProcessor_def Let_def foldl_append_processResult
            HTML_nodeTypeClass_def HTML_listType_def HTML_nodeKey_def HTML_nodeValue_def
            HTML_circularReference_def HTML_circularLink_def HTML_circularKey_def
            HTML_circularPath_def nullish_coalesce_def)
  qed
  show ?label
  proof (intro allI impI)
    fix p
    assume parent: "parent n = Some p"
    then have p: "parent n \<noteq> None" by simp
    show \<open>starts_with (fst (defaultHTMLProcessor E n s))
           (''<li id="'' @ path n @ ''" class="leaf nt_'' @
            ToString (nodeTypeToString E (JNumber (nodeType n))) @ ''">'' @
            ''\<newline>'' @ ''<span class="key">'' @ key n @ ''</span>: '')
         \<longleftrightarrow> \<not> strict_equals (JNumber (nodeType p)) (enum_member E ''arrayofobjects'')\<close>
      unfolding html_item_output [OF p]
      using parent
      by (simp add: HTML_nodeKey_def HTML_nodeValue_def HTML_nodeTypeClass_def)
  qed
qed

theorem html_key_label_and_list_tags_witness:
  \<open>starts_with (fst (defaultHTMLProcessor example_enum example_items plain_styles))
     (''<li id="root.items" class="leaf nt_arrayofobjects">'' @ ''\<newline>'' @
      ''<span class="key">items</span>: '')
   \<and> \<not> starts_with (fst (defaultHTMLProcessor example_enum example_element plain_styles))
     (''<li id="root.items.0" class="leaf nt_string">'' @ ''\<newline>'' @
      ''<span class="key">0</span>: '')
   \<and> fst (defaultHTMLProcessor example_enum example_element plain_styles)
     = ''<li id="root.items.0" class="leaf nt_string">'' @ ''\<newline>'' @
       ''<span class="value">a</span> '' @ ''\<newline></li>''
   \<and> \<not> contains_text (fst (defaultHTMLProcessor example_enum example_element plain_styles))
         ''<span class="key">''
   \<and> fst (defaultHTMLProcessor example_enum example_items plain_styles)
     = ''<li id="root.items" class="leaf nt_arrayofobjects">'' @ ''\<newline>'' @
       ''<span class="key">items</span>: '' @ ''\<newline>'' @
       ''<ol start="0" id="list@root.items" class="branch nt_arrayofobjects">'' @
       ''\<newline>a\<newline>b'' @ ''\<newline></ol>'' @ ''\<newline></li>''
   \<and> fst (defaultHTMLProcessor example_enum example_root plain_styles)
     = ''\<newline><ul id="list@root" class="branch nt_nonEmptyObject">'' @ ''\<newline></ul>''\<close>
  using html_key_label_and_list_tags
          [where n = example_items and E = example_enum and s = plain_styles]
        html_key_label_and_list_tags
          [where n = example_element and E = example_enum and s = plain_styles]
        html_key_label_and_list_tags
          [where n = example_root and E = example_enum and s = plain_styles]
  by (simp add: example_element_def example_items_def example_child_def example_root_def
      example_enum_def plain_styles_def defaultHTMLProcessor_def HTML_nodeTypeClass_def
      HTML_nodeKey_def HTML_nodeValue_def HTML_listType_def HTML_circularReference_def
      nodeTypeToString_def enum_member_def strict_equals_def append_processResult_def
      Let_def)


section \<open>The style registry\<close>

text \<open>
  C6. The output of each of the four strategies is determined by the node and by the four
  style functions in use: two registry states that agree on \<open>StructureColor\<close>,
  \<open>KeyColor\<close>, \<open>ValueColor\<close> and \<open>CircularColor\<close> give the same output on the same node,
  and a second invocation, in the state the first one leaves, returns what the first one
  returned.
\<close>

theorem strategies_deterministic:
  assumes "StructureColor s = StructureColor s'" and "KeyColor s = KeyColor s'"
    and "ValueColor s = ValueColor s'" and "CircularColor s = CircularColor s'"
  shows "fst (defaultColoredTypesProcessor E n s) = fst (defaultColoredTypesProcessor E n s')
       \<and> fst (defaultColoredValuesProcessor n s) = fst (defaultColoredValuesProcessor n s')
       \<and> fst (defaultHTMLProcessor E n s) = fst (defaultHTMLProcessor E n s')
       \<and> fst (debugProcessor E n s) = fst (debugProcessor E n s')
       \<and> fst (defaultColoredTypesProcessor E n (snd (defaultColoredTypesProcessor E n s)))
           = fst (defaultColoredTypesProcessor E n s)
       \<and> fst (defaultColoredValuesProcessor n (snd (defaultColoredValuesProcessor n s)))
           = fst (defaultColoredValuesProcessor n s)
       \<and> fst (defaultHTMLProcessor E n (snd (defaultHTMLProcessor E n s)))
           = fst (defaultHTMLProcessor E n s)
       \<and> fst (debugProcessor E n (snd (debugProcessor E n s)))
           = fst (debugProcessor E n s)"
proof (intro conjI)
  show "fst (defaultColoredTypesProcessor E n s) = fst (defaultColoredTypesProcessor E n s')"
    using assms by (simp add: defaultColoredTypesProcessor_def Let_def)
  show "fst (defaultColoredValuesProcessor n s) = fst (defaultColoredValuesProcessor n s')"
    using assms by (simp add: defaultColoredValuesProcessor_def Let_def)
  show "fst (defaultHTMLProcessor E n s) = fst (defaultHTMLProcessor E n s')"
    by (simp add: defaultHTMLProcessor_def Let_def)
  show "fst (debugProcessor E n s) = fst (debugProcessor E n s')"
    using assms
    by (cases "circularRefNode n")
       (simp_all add: debugProcessor_def Let_def split: sum.split)
qed (simp_all add: types_state values_state html_state debug_state)

theorem strategies_deterministic_witness:
  "fst (defaultColoredTypesProcessor example_enum example_items other_defaults)
     = fst (defaultColoredTypesProcessor example_enum example_items plain_styles)
   \<and> fst (defaultColoredValuesProcessor circular_leaf other_defaults)
     = fst (defaultColoredValuesProcessor circular_leaf plain_styles)
   \<and> fst (defaultHTMLProcessor example_enum example_items other_defaults)
     = fst (defaultHTMLProcessor example_enum example_items plain_styles)
   \<and> fst (debugProcessor example_enum example_items other_defaults)
     = fst (debugProcessor example_enum example_items plain_styles)
   \<and> other_defaults \<noteq> plain_styles"
proof -
  have "defaultKeyColor other_defaults [] \<noteq> defaultKeyColor plain_styles []"
    by (simp add: other_defaults_def plain_styles_def)
  then have "other_defaults \<noteq> plain_styles" by auto
  then show ?thesis
    using strategies_deterministic
            [where s = other_defaults and s' = plain_styles and E = example_enum
               and n = example_items]
          strategies_deterministic
            [where s = other_defaults and s' = plain_styles and E = example_enum
               and n = circular_leaf]
    by (simp add: other_defaults_def plain_styles_def)
qed

text \<open>
  C7. \<open>resetAllColors\<close> sets each of the four style functions to its default, whatever they
  were overridden with, leaves the defaults as they are, and calling it twice gives the same
  registry as calling it once.
\<close>

theorem resetAllColors_restores_defaults:
  "StructureColor (resetAllColors (s\<lparr>StructureColor := f1, KeyColor := f2,
                                     ValueColor := f3, CircularColor := f4\<rparr>))
     = defaultStructureColor s
   \<and> KeyColor (resetAllColors (s\<lparr>StructureColor := f1, KeyColor := f2,
                                 ValueColor := f3, CircularColor := f4\<rparr>))
     = defaultKeyColor s
   \<and> ValueColor (resetAllColors (s\<lparr>StructureColor := f1, KeyColor := f2,
                                   ValueColor := f3, CircularColor := f4\<rparr>))
     = defaultValueColor s
   \<and> CircularColor (resetAllColors (s\<lparr>StructureColor := f1, KeyColor := f2,
                                      ValueColor := f3, CircularColor := f4\<rparr>))
     = defaultCircularColor s
   \<and> resetAllColors (s\<lparr>StructureColor := f1, KeyColor := f2,
                        ValueColor := f3, CircularColor := f4\<rparr>) = resetAllColors s
   \<and> resetAllColors (resetAllColors s) = resetAllColors s"
  by (simp add: resetAllColors_def Let_def)

text \<open>
  C10. No strategy changes the registry: the state that each of the four strategies
  leaves is the state it was invoked in, for every node.
\<close>

theorem strategies_leave_registry_unchanged:
  "snd (defaultColoredTypesProcessor E n s) = s
   \<and> snd (defaultColoredValuesProcessor n s) = s
   \<and> snd (defaultHTMLProcessor E n s) = s
   \<and> snd (debugProcessor E n s) = s"
  by (simp add: types_state values_state html_state debug_state)


section \<open>The entry point \<open>debugResultNode\<close>\<close>

text \<open>
  C8. \<open>debugResultNode\<close> hands the root node to the method \<open>process\<close> of the supplied
  engine, or of a newly constructed one when none is supplied, with the label \<open>debug@\<close>
  followed by the key of the root node and with the debug strategy as the processor.
\<close>

theorem debugResultNode_uses_engine_and_label:
  "debugResultNode process new_Treeifier E rootnode (Some t) s
     = process t rootnode (''debug@'' @ key rootnode) (debugProcessor E) s
   \<and> debugResultNode process new_Treeifier E rootnode None s
     = process new_Treeifier rootnode (''debug@'' @ key rootnode) (debugProcessor E) s"
  by (simp add: debugResultNode_def)


section \<open>Types View: the output is never empty\<close>




end
